theory Spec2Isabelle
  imports Complex_Main "HOL-Library.Multiset"
begin

section \<open>Tile detection and recommendation: a shallow embedding\<close>

text \<open>
  The JavaScript sources are embedded function by function.  JavaScript numbers are
  read as mathematical reals (scores) or integers (identifiers, sizes); an absent
  value (\<^verbatim>\<open>null\<close> or \<^verbatim>\<open>undefined\<close>) is \<open>None\<close>; a thrown error or a rejected
  promise is the left summand of a sum type.  Every call of \<^verbatim>\<open>Math.random()\<close> is a
  parameter of the function that makes it, so each result below holds for every
  sequence of draws.
\<close>

subsection \<open>Array helpers\<close>

text \<open>
  \<^verbatim>\<open>Array.prototype.sort(cmp)\<close> is stable, and for a consistent comparator its result
  is the one stable ordering, which insertion from the right computes:
  \<open>insort_cmp cmp x ys\<close> puts \<open>x\<close>, which stood before every element of \<open>ys\<close>, in
  front of the first \<open>y\<close> with \<open>cmp x y \<le> 0\<close>.
\<close>

fun insort_cmp :: "('a \<Rightarrow> 'a \<Rightarrow> real) \<Rightarrow> 'a \<Rightarrow> 'a list \<Rightarrow> 'a list" where
  "insort_cmp cmp x [] = [x]"
| "insort_cmp cmp x (y # ys) =
     (if cmp x y \<le> 0 then x # y # ys else y # insort_cmp cmp x ys)"

definition array_sort :: "('a \<Rightarrow> 'a \<Rightarrow> real) \<Rightarrow> 'a list \<Rightarrow> 'a list" where
  "array_sort cmp xs = foldr (insort_cmp cmp) xs []"

text \<open>
  \<^verbatim>\<open>xs.slice(0, e)\<close>: a negative end counts from the end of the array, and the end
  is clamped to the length.
\<close>

definition slice0 :: "'a list \<Rightarrow> int \<Rightarrow> 'a list" where
  "slice0 xs e =
     (let len = int (length xs);
          final = (if e < 0 then max (len + e) 0 else min e len)
      in take (nat final) xs)"

text \<open>
  \<^verbatim>\<open>Number(x.toFixed(3))\<close>: the nearest multiple of one thousandth, the larger one
  on a tie; the sign of a negative number is set aside first.
\<close>

definition toFixed3 :: "real \<Rightarrow> real" where
  "toFixed3 x =
     (if x < 0 then - (of_int \<lfloor>(- x) * 1000 + 1 / 2\<rfloor> / 1000)
      else of_int \<lfloor>x * 1000 + 1 / 2\<rfloor> / 1000)"

subsection \<open>Detection service (detectService.js)\<close>

record mock_tile =
  tile_id :: int
  tile_image :: string

text \<open>A detection; \<open>det_id = None\<close> is an object without an \<^verbatim>\<open>id\<close> property.\<close>

record detection =
  det_id :: "int option"
  det_image :: string
  confidence :: real

definition MOCK_TILES :: "mock_tile list" where
  "MOCK_TILES =
     [\<lparr>tile_id = 1, tile_image = ''/mock/tile1.svg''\<rparr>,
      \<lparr>tile_id = 2, tile_image = ''/mock/tile2.svg''\<rparr>,
      \<lparr>tile_id = 3, tile_image = ''/mock/tile3.svg''\<rparr>]"

definition EMPTY_DETECTION_PROBABILITY :: real where
  "EMPTY_DETECTION_PROBABILITY = 0.25"

text \<open>\<open>random\<close> is the draw of \<^verbatim>\<open>Math.random()\<close>.\<close>

definition generateConfidence :: "real \<Rightarrow> real" where
  "generateConfidence random =
     (let base = 0.5; range = 0.49; weighted = random powr 0.7
      in toFixed3 (base + weighted * range))"

text \<open>
  \<open>rnd k\<close> is the \<open>k\<close>-th draw of the call: draw 0 decides the empty result, draw 1
  the requested number, draw \<open>2 + i\<close> the confidence of the tile at index \<open>i\<close>.
\<close>

definition generateMockDetections :: "(nat \<Rightarrow> real) \<Rightarrow> detection list" where
  "generateMockDetections rnd =
     (if rnd 0 < EMPTY_DETECTION_PROBABILITY then []
      else
        let numDetections = \<lfloor>rnd 1 * 3\<rfloor> + 3;
            detections =
              map (\<lambda>(index, tile).
                     \<lparr>det_id = Some (tile_id tile), det_image = tile_image tile,
                      confidence = generateConfidence (rnd (2 + index))\<rparr>)
                  (enumerate 0 (slice0 MOCK_TILES numDetections))
        in array_sort (\<lambda>a b. confidence b - confidence a) detections)"

subsection \<open>Recommendation service (recommendService.js)\<close>

record recommendation =
  rec_id :: int
  rec_image :: string
  similarity :: real

definition MOCK_RECOMMENDATION_TILES :: "mock_tile list" where
  "MOCK_RECOMMENDATION_TILES =
     [\<lparr>tile_id = 101, tile_image = ''/mock/tile1.svg''\<rparr>,
      \<lparr>tile_id = 102, tile_image = ''/mock/tile2.svg''\<rparr>,
      \<lparr>tile_id = 103, tile_image = ''/mock/tile3.svg''\<rparr>,
      \<lparr>tile_id = 104, tile_image = ''/mock/tile1.svg''\<rparr>,
      \<lparr>tile_id = 105, tile_image = ''/mock/tile2.svg''\<rparr>,
      \<lparr>tile_id = 106, tile_image = ''/mock/tile3.svg''\<rparr>,
      \<lparr>tile_id = 107, tile_image = ''/mock/tile1.svg''\<rparr>,
      \<lparr>tile_id = 108, tile_image = ''/mock/tile2.svg''\<rparr>]"

definition EMPTY_RECOMMENDATION_PROBABILITY :: real where
  "EMPTY_RECOMMENDATION_PROBABILITY = 0.1"

definition generateSimilarity :: "real \<Rightarrow> real" where
  "generateSimilarity random =
     (let minSimilarity = 0.72; maxSimilarity = 0.95;
          range = maxSimilarity - minSimilarity;
          weighted = random powr 0.6
      in toFixed3 (minSimilarity + weighted * range))"

text \<open>
  \<^verbatim>\<open>[...availableTiles].sort(() => Math.random() - 0.5)\<close> sorts with a comparator that
  ignores its arguments, so the order it leaves is up to the engine and the draws;
  the parameter \<open>shuffle\<close> stands for that call.  \<open>rnd 0\<close> and \<open>rnd 1\<close> are the two
  draws before it, \<open>sim i\<close> the draw for the similarity of the \<open>i\<close>-th selected tile.
  \<^verbatim>\<open>referenceTile?.id\<close> is \<open>None\<close> for an absent tile and for a tile without an id.
\<close>

definition optional_id :: "detection option \<Rightarrow> int option" where
  "optional_id referenceTile =
     (case referenceTile of None \<Rightarrow> None | Some t \<Rightarrow> det_id t)"

definition generateMockRecommendations ::
  "(nat \<Rightarrow> real) \<Rightarrow> (mock_tile list \<Rightarrow> mock_tile list) \<Rightarrow> (nat \<Rightarrow> real) \<Rightarrow>
   detection option \<Rightarrow> recommendation list" where
  "generateMockRecommendations rnd shuffle sim referenceTile =
     (if rnd 0 < EMPTY_RECOMMENDATION_PROBABILITY then []
      else
        let numRecommendations = \<lfloor>rnd 1 * 4\<rfloor> + 5;
            availableTiles =
              filter (\<lambda>tile. Some (tile_id tile) \<noteq> optional_id referenceTile)
                MOCK_RECOMMENDATION_TILES;
            shuffled = shuffle availableTiles;
            selected = slice0 shuffled numRecommendations;
            recommendations =
              map (\<lambda>(index, tile).
                     \<lparr>rec_id = tile_id tile, rec_image = tile_image tile,
                      similarity = generateSimilarity (sim index)\<rparr>)
                  (enumerate 0 selected)
        in array_sort (\<lambda>a b. similarity b - similarity a) recommendations)"

text \<open>
  \<^verbatim>\<open>!referenceTile.id\<close>: an absent property is falsy, and so is the number zero.
\<close>

definition falsy_id :: "int option \<Rightarrow> bool" where
  "falsy_id i = (case i of None \<Rightarrow> True | Some n \<Rightarrow> n = 0)"

text \<open>
  The promise of \<^verbatim>\<open>getTileRecommendations\<close>: \<open>Inl\<close> is a rejection with the message of
  the error, \<open>Inr\<close> the resolved \<^verbatim>\<open>recommendations\<close> array.  The function is
  \<^verbatim>\<open>async\<close>, so the \<^verbatim>\<open>throw\<close> of the input check is a rejection.  The mock generator
  never throws, so the \<^verbatim>\<open>catch\<close> around it is never entered.
\<close>

definition getTileRecommendations ::
  "(nat \<Rightarrow> real) \<Rightarrow> (mock_tile list \<Rightarrow> mock_tile list) \<Rightarrow> (nat \<Rightarrow> real) \<Rightarrow>
   detection option \<Rightarrow> string + recommendation list" where
  "getTileRecommendations rnd shuffle sim referenceTile =
     (if referenceTile = None \<or> falsy_id (optional_id referenceTile)
      then Inl ''Invalid reference tile provided''
      else Inr (generateMockRecommendations rnd shuffle sim referenceTile))"

subsection \<open>Validation of a selected file (ImageUploader.jsx)\<close>

record image_file =
  file_name :: string
  file_type :: string
  file_size :: nat

definition ALLOWED_TYPES :: "string list" where
  "ALLOWED_TYPES = [''image/png'', ''image/jpeg'', ''image/jpg'']"

definition MAX_FILE_SIZE :: nat where
  "MAX_FILE_SIZE = 10 * 1024 * 1024"

text \<open>The result is the error message, or \<open>None\<close> for \<^verbatim>\<open>null\<close> (the file is valid).\<close>

definition validateFile :: "image_file option \<Rightarrow> string option" where
  "validateFile selected =
     (case selected of
        None \<Rightarrow> Some ''No file selected''
      | Some f \<Rightarrow>
          if file_type f \<notin> set ALLOWED_TYPES
          then Some ''Invalid file type. Please upload PNG, JPG, or JPEG images only.''
          else if file_size f > MAX_FILE_SIZE
          then Some ''File too large. Maximum size is 10MB.''
          else None)"

text \<open>
  \<^verbatim>\<open>handleFile\<close> sets the error of the uploader and may call \<^verbatim>\<open>onImageSelect\<close>:
  \<open>onImageSelect_arg\<close> is \<open>None\<close> when the callback is not called, and the argument of
  the call otherwise.  A message is truthy when it is a non-empty string.
\<close>

record handled_file =
  uploader_error :: "string option"
  onImageSelect_arg :: "image_file option option"

definition truthy_message :: "string option \<Rightarrow> bool" where
  "truthy_message m = (case m of None \<Rightarrow> False | Some s \<Rightarrow> s \<noteq> [])"

definition handleFile :: "image_file option \<Rightarrow> handled_file" where
  "handleFile selected =
     (let validationError = validateFile selected
      in if truthy_message validationError
         then \<lparr>uploader_error = validationError, onImageSelect_arg = None\<rparr>
         else \<lparr>uploader_error = None, onImageSelect_arg = Some selected\<rparr>)"

subsection \<open>Workflow state (App.jsx) and the pages\<close>

datatype page = Upload | Result | Recommendation

text \<open>An object URL is a handle; \<^verbatim>\<open>URL.createObjectURL\<close> returns a fresh one each time.\<close>

type_synonym url = nat

text \<open>The five \<^verbatim>\<open>useState\<close> cells of \<^verbatim>\<open>App\<close>.\<close>

record app_state =
  currentPage :: page
  uploadedImage :: "image_file option"
  imagePreview :: "url option"
  detectionResults :: "detection list option"
  selectedTileForRecommendation :: "detection option"

text \<open>The state cells of \<^verbatim>\<open>UploadPage\<close> and of \<^verbatim>\<open>RecommendationPage\<close>.\<close>

record upload_page =
  isProcessing :: bool
  upload_error :: "string option"
  showCamera :: bool

record recommendation_page =
  isLoading :: bool
  recommendations :: "recommendation list option"
  recommendation_error :: "string option"
  hasFetchedRef :: bool

text \<open>
  The whole client: the state of \<^verbatim>\<open>App\<close>, the state of the page components (read
  only while their page is the current one, and set to its initial value when the
  page is mounted), the object URLs that are created and not yet revoked, and a
  log of the calls made to the two services.
\<close>

record world =
  app :: app_state
  uploadPage :: upload_page
  recommendationPage :: recommendation_page
  objectURLs :: "url list"
  nextURL :: url
  detectCalls :: "image_file list"
  recommendCalls :: "detection list"

definition initial_app :: app_state where
  "initial_app =
     \<lparr>currentPage = Upload, uploadedImage = None, imagePreview = None,
      detectionResults = None, selectedTileForRecommendation = None\<rparr>"

definition initial_upload_page :: upload_page where
  "initial_upload_page = \<lparr>isProcessing = False, upload_error = None, showCamera = False\<rparr>"

definition initial_recommendation_page :: recommendation_page where
  "initial_recommendation_page =
     \<lparr>isLoading = False, recommendations = None, recommendation_error = None,
      hasFetchedRef = False\<rparr>"

definition initial_world :: world where
  "initial_world =
     \<lparr>app = initial_app, uploadPage = initial_upload_page,
      recommendationPage = initial_recommendation_page,
      objectURLs = [], nextURL = 0, detectCalls = [], recommendCalls = []\<rparr>"

definition createObjectURL :: "world \<Rightarrow> url \<times> world" where
  "createObjectURL w =
     (nextURL w, w\<lparr>objectURLs := objectURLs w @ [nextURL w], nextURL := Suc (nextURL w)\<rparr>)"

definition revokeObjectURL :: "url \<Rightarrow> world \<Rightarrow> world" where
  "revokeObjectURL u w = w\<lparr>objectURLs := removeAll u (objectURLs w)\<rparr>"

paragraph \<open>App.jsx\<close>

definition handleImageUpload :: "image_file \<Rightarrow> world \<Rightarrow> world" where
  "handleImageUpload f w =
     (let w1 = w\<lparr>app := (app w)\<lparr>uploadedImage := Some f\<rparr>\<rparr>;
          (previewUrl, w2) = createObjectURL w1
      in w2\<lparr>app := (app w2)\<lparr>imagePreview := Some previewUrl\<rparr>\<rparr>)"

text \<open>Showing the result page puts \<^verbatim>\<open>ResultPage\<close>, which has no state, on the screen.\<close>

definition handleDetectionComplete :: "detection list \<Rightarrow> world \<Rightarrow> world" where
  "handleDetectionComplete results w =
     w\<lparr>app := (app w)\<lparr>detectionResults := Some results, currentPage := Result\<rparr>\<rparr>"

text \<open>
  \<^verbatim>\<open>handleReset\<close> is handed to the result page and to the recommendation page.
  Showing the upload page from one of them mounts \<^verbatim>\<open>UploadPage\<close> with its initial
  state; were the upload page already shown, the component and its state would stay.
\<close>

definition handleReset :: "world \<Rightarrow> world" where
  "handleReset w =
     (let w1 = (case imagePreview (app w) of
                  Some previewUrl \<Rightarrow> revokeObjectURL previewUrl w
                | None \<Rightarrow> w)
      in w1\<lparr>app := (app w1)\<lparr>uploadedImage := None, imagePreview := None,
                              detectionResults := None,
                              selectedTileForRecommendation := None,
                              currentPage := Upload\<rparr>,
            uploadPage := (if currentPage (app w) = Upload then uploadPage w
                           else initial_upload_page)\<rparr>)"

paragraph \<open>RecommendationPage.jsx\<close>

text \<open>
  The effect that runs when the page is mounted.  A call to the service is logged
  in \<open>recommendCalls\<close>; its answer arrives later, as \<open>recommend_resolved\<close> or
  \<open>recommend_rejected\<close>.
\<close>

definition fetch_effect :: "world \<Rightarrow> world" where
  "fetch_effect w =
     (case selectedTileForRecommendation (app w) of
        None \<Rightarrow>
          w\<lparr>recommendationPage := (recommendationPage w)
               \<lparr>recommendation_error :=
                  Some ''No reference tile provided. Please go back and select a tile.''\<rparr>\<rparr>
      | Some referenceTile \<Rightarrow>
          if hasFetchedRef (recommendationPage w) then w
          else w\<lparr>recommendationPage := (recommendationPage w)
                    \<lparr>hasFetchedRef := True, isLoading := True,
                     recommendation_error := None\<rparr>,
                  recommendCalls := recommendCalls w @ [referenceTile]\<rparr>)"

text \<open>
  The two continuations of \<^verbatim>\<open>fetchRecommendations\<close>: they set state cells of the page
  and nothing of \<^verbatim>\<open>App\<close>.
\<close>

definition recommend_resolved :: "recommendation list \<Rightarrow> world \<Rightarrow> world" where
  "recommend_resolved results w =
     w\<lparr>recommendationPage := (recommendationPage w)
          \<lparr>recommendations := Some results, isLoading := False\<rparr>\<rparr>"

definition recommend_rejected :: "world \<Rightarrow> world" where
  "recommend_rejected w =
     w\<lparr>recommendationPage := (recommendationPage w)
          \<lparr>recommendation_error :=
             Some ''Unable to find similar tiles. Please try again.'',
           isLoading := False\<rparr>\<rparr>"

text \<open>
  The button \<^verbatim>\<open>Try Again\<close> calls \<^verbatim>\<open>window.location.reload()\<close>: the document is loaded
  anew, so every component starts from its initial state and the object URLs of
  the old document are released.  The log of service calls is kept, since it
  records what has been sent.
\<close>

definition reload :: "world \<Rightarrow> world" where
  "reload w =
     initial_world\<lparr>nextURL := nextURL w, detectCalls := detectCalls w,
                    recommendCalls := recommendCalls w\<rparr>"

paragraph \<open>App.jsx, continued\<close>

definition handleFindSimilar :: "detection \<Rightarrow> world \<Rightarrow> world" where
  "handleFindSimilar tile w =
     fetch_effect
       (w\<lparr>app := (app w)\<lparr>selectedTileForRecommendation := Some tile,
                            currentPage := Recommendation\<rparr>,
          recommendationPage := initial_recommendation_page\<rparr>)"

definition handleBackToResults :: "world \<Rightarrow> world" where
  "handleBackToResults w =
     w\<lparr>app := (app w)\<lparr>selectedTileForRecommendation := None, currentPage := Result\<rparr>\<rparr>"

paragraph \<open>UploadPage.jsx\<close>

definition handleDetect :: "world \<Rightarrow> world" where
  "handleDetect w =
     (case uploadedImage (app w) of
        None \<Rightarrow>
          w\<lparr>uploadPage := (uploadPage w)
               \<lparr>upload_error := Some ''Please select an image before detecting tiles.''\<rparr>\<rparr>
      | Some f \<Rightarrow>
          w\<lparr>uploadPage := (uploadPage w)\<lparr>upload_error := None, isProcessing := True\<rparr>,
            detectCalls := detectCalls w @ [f]\<rparr>)"

text \<open>
  The continuations of \<^verbatim>\<open>handleDetect\<close> after \<^verbatim>\<open>await detectTile(uploadedImage)\<close>: on
  success \<^verbatim>\<open>onDetectionComplete(results)\<close>, on failure the error of the page, and
  \<^verbatim>\<open>setIsProcessing(false)\<close> in both.
\<close>

definition detect_resolved :: "detection list \<Rightarrow> world \<Rightarrow> world" where
  "detect_resolved results w =
     (let w1 = handleDetectionComplete results w
      in w1\<lparr>uploadPage := (uploadPage w1)\<lparr>isProcessing := False\<rparr>\<rparr>)"

definition detect_rejected :: "world \<Rightarrow> world" where
  "detect_rejected w =
     w\<lparr>uploadPage := (uploadPage w)
          \<lparr>upload_error :=
             Some ''An error occurred while processing the image. Please try again.'',
           isProcessing := False\<rparr>\<rparr>"

definition handleCameraCapture :: "image_file \<Rightarrow> world \<Rightarrow> world" where
  "handleCameraCapture f w =
     handleImageUpload f (w\<lparr>uploadPage := (uploadPage w)\<lparr>showCamera := False\<rparr>\<rparr>)"

definition handleCameraClose :: "world \<Rightarrow> world" where
  "handleCameraClose w = w\<lparr>uploadPage := (uploadPage w)\<lparr>showCamera := False\<rparr>\<rparr>"

paragraph \<open>ResultPage.jsx\<close>

definition hasDetections :: "detection list option \<Rightarrow> bool" where
  "hasDetections results = (case results of None \<Rightarrow> False | Some ds \<Rightarrow> length ds > 0)"

definition topDetections :: "detection list option \<Rightarrow> detection list" where
  "topDetections results =
     (case results of
        None \<Rightarrow> []
      | Some ds \<Rightarrow>
          if hasDetections results
          then slice0 (array_sort (\<lambda>a b. confidence b - confidence a) ds) 3
          else [])"

text \<open>The cards of the result page: image, confidence and rank of each shown tile.\<close>

definition tileCards :: "detection list option \<Rightarrow> (string \<times> real \<times> nat) list" where
  "tileCards results =
     map (\<lambda>(index, d). (det_image d, confidence d, index + 1))
       (enumerate 0 (topDetections results))"

definition ResultPage_handleFindSimilar :: "world \<Rightarrow> world" where
  "ResultPage_handleFindSimilar w =
     (case topDetections (detectionResults (app w)) of
        [] \<Rightarrow> w
      | d # _ \<Rightarrow> handleFindSimilar d w)"

paragraph \<open>What each page renders\<close>

datatype control =
  ImageUploaderZone | CameraButton | CameraCaptureView | DetectButton
  | FindSimilarButton | ResetButton | BackButton | RetryButton

text \<open>
  The controls a user can operate in a state, read off the \<^verbatim>\<open>return\<close> statements of
  the three pages.  While \<^verbatim>\<open>isProcessing\<close> or \<^verbatim>\<open>isLoading\<close> holds, a page returns the
  loader alone.  The detect button is rendered \<^verbatim>\<open>disabled\<close> without an image.
\<close>

definition enabled_controls :: "world \<Rightarrow> control list" where
  "enabled_controls w =
     (case currentPage (app w) of
        Upload \<Rightarrow>
          if isProcessing (uploadPage w) then []
          else if showCamera (uploadPage w) then [CameraCaptureView]
          else [ImageUploaderZone, CameraButton]
               @ (if uploadedImage (app w) \<noteq> None then [DetectButton] else [])
      | Result \<Rightarrow>
          (if hasDetections (detectionResults (app w)) then [FindSimilarButton] else [])
          @ [ResetButton]
      | Recommendation \<Rightarrow>
          (case selectedTileForRecommendation (app w) of
             None \<Rightarrow> [BackButton]
           | Some referenceTile \<Rightarrow>
               if isLoading (recommendationPage w) then []
               else (if truthy_message (recommendation_error (recommendationPage w))
                     then [RetryButton] else [])
                    @ [BackButton, ResetButton]))"

subsection \<open>Example runs\<close>

definition photo :: image_file where
  "photo = \<lparr>file_name = ''tile.jpg'', file_type = ''image/jpeg'',
            file_size = 2 * 1024 * 1024\<rparr>"

definition other_photo :: image_file where
  "other_photo = \<lparr>file_name = ''floor.png'', file_type = ''image/png'',
                  file_size = 300000\<rparr>"

definition sample_detections :: "detection list" where
  "sample_detections =
     [\<lparr>det_id = Some 1, det_image = ''/mock/tile1.svg'', confidence = 0.77\<rparr>,
      \<lparr>det_id = Some 2, det_image = ''/mock/tile2.svg'', confidence = 0.91\<rparr>,
      \<lparr>det_id = Some 3, det_image = ''/mock/tile3.svg'', confidence = 0.63\<rparr>,
      \<lparr>det_id = Some 4, det_image = ''/mock/tile1.svg'', confidence = 0.91\<rparr>,
      \<lparr>det_id = Some 5, det_image = ''/mock/tile2.svg'', confidence = 0.55\<rparr>]"

text \<open>The first of the two sample detections with the highest confidence.\<close>

definition top_sample :: detection where
  "top_sample = \<lparr>det_id = Some 2, det_image = ''/mock/tile2.svg'', confidence = 0.91\<rparr>"

text \<open>A photo is chosen, detection is asked for and answers with the sample.\<close>

definition detected_world :: world where
  "detected_world =
     detect_resolved sample_detections (handleDetect (handleImageUpload photo initial_world))"

text \<open>From there the user asks for similar tiles and the service call fails.\<close>

definition failed_recommendation_world :: world where
  "failed_recommendation_world =
     recommend_rejected (ResultPage_handleFindSimilar detected_world)"

text \<open>
  A photo is chosen and then replaced by another one; detection runs, and the user
  resets from the result page.
\<close>

definition replaced_photo_reset_world :: world where
  "replaced_photo_reset_world =
     handleReset
       (detect_resolved sample_detections
          (handleDetect (handleImageUpload other_photo (handleImageUpload photo initial_world))))"

section \<open>Properties\<close>

subsection \<open>Sorting and slicing\<close>

lemma length_insort_cmp: "length (insort_cmp cmp x ys) = Suc (length ys)"
  by (induction ys) auto

lemma length_array_sort: "length (array_sort cmp xs) = length xs"
  unfolding array_sort_def by (induction xs) (auto simp: length_insort_cmp)

lemma set_insort_cmp: "set (insort_cmp cmp x ys) = insert x (set ys)"
  by (induction ys) auto

lemma set_array_sort: "set (array_sort cmp xs) = set xs"
  unfolding array_sort_def by (induction xs) (auto simp: set_insort_cmp)

lemma mset_insort_cmp: "mset (insort_cmp cmp x ys) = add_mset x (mset ys)"
  by (induction ys) auto

lemma mset_array_sort: "mset (array_sort cmp xs) = mset xs"
  unfolding array_sort_def by (induction xs) (auto simp: mset_insort_cmp)

lemma array_sort_Nil_iff: "array_sort cmp xs = [] \<longleftrightarrow> xs = []"
  using length_array_sort [of cmp xs] by (metis length_0_conv)

lemma sorted_insort_desc:
  "sorted_wrt (\<lambda>a b. key b \<le> key a) ys \<Longrightarrow>
   sorted_wrt (\<lambda>a b. key b \<le> (key a :: real)) (insort_cmp (\<lambda>a b. key b - key a) x ys)"
  by (induction ys) (auto simp: set_insort_cmp)

lemma sorted_array_sort_desc:
  "sorted_wrt (\<lambda>a b. key b \<le> (key a :: real)) (array_sort (\<lambda>a b. key b - key a) xs)"
  unfolding array_sort_def by (induction xs) (auto intro: sorted_insort_desc)

lemma hd_insort_cmp:
  "hd (insort_cmp cmp x ys) = (if ys = [] \<or> cmp x (hd ys) \<le> 0 then x else hd ys)"
  by (cases ys) auto

text \<open>
  The head of the sorted array is the first element, in the order before sorting,
  whose key is the greatest.
\<close>

lemma find_max_hd_sort:
  fixes key :: "'a \<Rightarrow> real"
  assumes "xs \<noteq> []"
  shows "find (\<lambda>d. key d = Max (key ` set xs)) xs
         = Some (hd (array_sort (\<lambda>a b. key b - key a) xs))"
  using assms
proof (induction xs)
  case Nil
  then show ?case by simp
next
  case (Cons x xs)
  let ?s = "array_sort (\<lambda>a b. key b - key a)"
  have unfold: "?s (x # xs) = insort_cmp (\<lambda>a b. key b - key a) x (?s xs)"
    by (simp add: array_sort_def)
  show ?case
  proof (cases "xs = []")
    case True
    then show ?thesis by (simp add: array_sort_def)
  next
    case False
    with Cons.IH have ih: "find (\<lambda>d. key d = Max (key ` set xs)) xs = Some (hd (?s xs))"
      by simp
    then have kh: "key (hd (?s xs)) = Max (key ` set xs)"
      by (auto simp: find_Some_iff)
    have ne: "?s xs \<noteq> []" using False by (simp add: array_sort_Nil_iff)
    have mx: "Max (key ` set (x # xs)) = max (key x) (Max (key ` set xs))"
      using False by simp
    show ?thesis
    proof (cases "key (hd (?s xs)) \<le> key x")
      case True
      then have "hd (?s (x # xs)) = x" by (simp add: unfold hd_insort_cmp)
      moreover have "Max (key ` set (x # xs)) = key x" using True kh mx by simp
      ultimately show ?thesis by simp
    next
      case larger: False
      then have "hd (?s (x # xs)) = hd (?s xs)" using ne by (simp add: unfold hd_insort_cmp)
      moreover have "Max (key ` set (x # xs)) = Max (key ` set xs)"
        "key x \<noteq> Max (key ` set xs)"
        using larger kh mx by simp_all
      ultimately show ?thesis using ih by simp
    qed
  qed
qed

lemma top_above_rest:
  assumes "sorted_wrt P xs"
  shows "\<forall>a\<in>set (take n xs). \<forall>b\<in>set (drop n xs). P a b"
proof -
  have "sorted_wrt P (take n xs @ drop n xs)" using assms by simp
  then show ?thesis unfolding sorted_wrt_append by blast
qed

lemma length_slice0_nonneg:
  "0 \<le> e \<Longrightarrow> length (slice0 xs e) = min (nat e) (length xs)"
  unfolding slice0_def Let_def by auto

lemma slice0_3: "slice0 xs 3 = take 3 xs"
  unfolding slice0_def Let_def by (simp add: min_def)

lemma set_slice0: "set (slice0 xs e) \<subseteq> set xs"
  unfolding slice0_def Let_def by (simp add: set_take_subset)

lemma in_map_enumerate:
  assumes "r \<in> set (map (\<lambda>(i, t). F i t) (enumerate n xs))"
  shows "\<exists>i t. t \<in> set xs \<and> r = F i t"
proof -
  from assms obtain i t where "(i, t) \<in> set (enumerate n xs)" and "r = F i t"
    by auto
  moreover from this have "t \<in> set xs"
    by (auto simp: in_set_enumerate_eq)
  ultimately show ?thesis by blast
qed

lemma map_snd_enumerate_comp: "map (\<lambda>x. g (snd x)) (enumerate n xs) = map g xs"
  by (induction xs arbitrary: n) auto

lemma map_Suc_fst_enumerate:
  "map (\<lambda>x. Suc (fst x)) (enumerate n xs) = [Suc n..<Suc (n + length xs)]"
proof -
  have "map (\<lambda>x. Suc (fst x)) (enumerate n xs) = map Suc (map fst (enumerate n xs))"
    by (simp only: map_map comp_def)
  also have "\<dots> = map Suc [n..<n + length xs]"
    by (simp only: map_fst_enumerate)
  also have "\<dots> = [Suc n..<Suc (n + length xs)]"
    by (simp only: map_Suc_upt)
  finally show ?thesis .
qed

subsection \<open>The mock services\<close>

lemma length_generateMockDetections:
  "length (generateMockDetections rnd) =
     (if rnd 0 < EMPTY_DETECTION_PROBABILITY then 0
      else length (slice0 MOCK_TILES (\<lfloor>rnd 1 * 3\<rfloor> + 3)))"
  unfolding generateMockDetections_def Let_def
  by (simp add: length_array_sort)

lemma length_generateMockRecommendations:
  "length (generateMockRecommendations rnd shuffle sim referenceTile) =
     (if rnd 0 < EMPTY_RECOMMENDATION_PROBABILITY then 0
      else length (slice0 (shuffle (filter (\<lambda>tile. Some (tile_id tile) \<noteq> optional_id referenceTile)
                MOCK_RECOMMENDATION_TILES)) (\<lfloor>rnd 1 * 4\<rfloor> + 5)))"
  unfolding generateMockRecommendations_def Let_def
  by (simp add: length_array_sort)

lemma availableTiles_length:
  "length (filter (\<lambda>tile. Some (tile_id tile) \<noteq> r) MOCK_RECOMMENDATION_TILES) \<in> {7, 8}"
  unfolding MOCK_RECOMMENDATION_TILES_def by (cases r) auto

lemma floor_draw_bounds:
  fixes r :: real
  assumes "0 \<le> r" "r < 1"
  shows "0 \<le> \<lfloor>r * of_nat n\<rfloor>" "\<lfloor>r * of_nat n\<rfloor> < int n \<or> n = 0"
proof -
  show "0 \<le> \<lfloor>r * of_nat n\<rfloor>" using assms by simp
  show "\<lfloor>r * of_nat n\<rfloor> < int n \<or> n = 0"
  proof (cases "n = 0")
    case False
    then have "r * of_nat n < of_nat n" using assms by simp
    then show ?thesis by (simp add: floor_less_iff)
  qed simp
qed

text \<open>
  Claim C1.  A result of the detection service that is not empty has between 3 and
  5 elements, and one of the recommendation service between 5 and 8; each is the
  requested number cut down to the size of its catalog, from which the
  recommendation service first removes the tile with the identifier of the
  reference tile.  (The detection catalog has three tiles, so a non-empty
  detection result has exactly three.)  The draw that chooses the number lies in
  \<open>[0, 1)\<close>, and shuffling keeps the length of the array.
\<close>

theorem result_cardinality:
  assumes "0 \<le> rnd 1" and "rnd 1 < 1"
    and "\<forall>xs. length (shuffle xs) = length xs"
  shows
    "(generateMockDetections rnd \<noteq> [] \<longrightarrow>
        length (generateMockDetections rnd) \<in> {3..5} \<and>
        length (generateMockDetections rnd) =
          min (nat (\<lfloor>rnd 1 * 3\<rfloor> + 3)) (length MOCK_TILES)) \<and>
     (generateMockRecommendations rnd shuffle sim referenceTile \<noteq> [] \<longrightarrow>
        length (generateMockRecommendations rnd shuffle sim referenceTile) \<in> {5..8} \<and>
        length (generateMockRecommendations rnd shuffle sim referenceTile) =
          min (nat (\<lfloor>rnd 1 * 4\<rfloor> + 5))
            (length (filter (\<lambda>tile. Some (tile_id tile) \<noteq> optional_id referenceTile)
                       MOCK_RECOMMENDATION_TILES)))"
proof -
  have n3: "0 \<le> \<lfloor>rnd 1 * 3\<rfloor>" "\<lfloor>rnd 1 * 3\<rfloor> < 3"
    using floor_draw_bounds [OF assms(1,2), of 3] by simp_all
  have n4: "0 \<le> \<lfloor>rnd 1 * 4\<rfloor>" "\<lfloor>rnd 1 * 4\<rfloor> < 4"
    using floor_draw_bounds [OF assms(1,2), of 4] by simp_all
  let ?dets = "generateMockDetections rnd"
  have det: "?dets \<noteq> [] \<longrightarrow> length ?dets \<in> {3..5} \<and>
      length ?dets = min (nat (\<lfloor>rnd 1 * 3\<rfloor> + 3)) (length MOCK_TILES)"
  proof
    assume "?dets \<noteq> []"
    then have "length ?dets \<noteq> 0" by simp
    then have "length ?dets = length (slice0 MOCK_TILES (\<lfloor>rnd 1 * 3\<rfloor> + 3))"
      by (simp add: length_generateMockDetections split: if_splits)
    also have "\<dots> = min (nat (\<lfloor>rnd 1 * 3\<rfloor> + 3)) (length MOCK_TILES)"
      using n3 by (simp add: length_slice0_nonneg)
    finally have eq: "length ?dets = min (nat (\<lfloor>rnd 1 * 3\<rfloor> + 3)) (length MOCK_TILES)" .
    moreover have "length MOCK_TILES = 3" by (simp add: MOCK_TILES_def)
    moreover have "3 \<le> nat (\<lfloor>rnd 1 * 3\<rfloor> + 3)" using n3 by linarith
    ultimately have "length ?dets \<in> {3..5}" by simp
    with eq show "length ?dets \<in> {3..5} \<and>
      length ?dets = min (nat (\<lfloor>rnd 1 * 3\<rfloor> + 3)) (length MOCK_TILES)" by simp
  qed
  let ?avail = "filter (\<lambda>tile. Some (tile_id tile) \<noteq> optional_id referenceTile)
                       MOCK_RECOMMENDATION_TILES"
  let ?recs = "generateMockRecommendations rnd shuffle sim referenceTile"
  have rec: "?recs \<noteq> [] \<longrightarrow> length ?recs \<in> {5..8} \<and>
     length ?recs = min (nat (\<lfloor>rnd 1 * 4\<rfloor> + 5)) (length ?avail)"
  proof
    assume "?recs \<noteq> []"
    then have "length ?recs \<noteq> 0" by simp
    then have "length ?recs = length (slice0 (shuffle ?avail) (\<lfloor>rnd 1 * 4\<rfloor> + 5))"
      by (simp add: length_generateMockRecommendations split: if_splits)
    also have "\<dots> = min (nat (\<lfloor>rnd 1 * 4\<rfloor> + 5)) (length ?avail)"
      using n4 assms(3) by (simp add: length_slice0_nonneg)
    finally have eq: "length ?recs = min (nat (\<lfloor>rnd 1 * 4\<rfloor> + 5)) (length ?avail)" .
    have "length ?avail \<in> {7, 8}" by (rule availableTiles_length)
    moreover have "5 \<le> nat (\<lfloor>rnd 1 * 4\<rfloor> + 5)" "nat (\<lfloor>rnd 1 * 4\<rfloor> + 5) \<le> 8"
      using n4 by linarith+
    ultimately have "length ?recs \<in> {5..8}" using eq by auto
    with eq show "length ?recs \<in> {5..8} \<and>
      length ?recs = min (nat (\<lfloor>rnd 1 * 4\<rfloor> + 5)) (length ?avail)" by simp
  qed
  from det rec show ?thesis by (rule conjI)
qed

text \<open>
  With every draw equal to one half, both results are non-empty: three detections,
  and seven recommendations for an absent reference tile when the shuffle reverses.
\<close>

theorem result_cardinality_witness:
  "(0::real) \<le> 1 / 2 \<and> (1::real) / 2 < 1 \<and> (\<forall>xs::mock_tile list. length (rev xs) = length xs) \<and>
   length (generateMockDetections (\<lambda>k. 1 / 2)) = 3 \<and>
   length (generateMockRecommendations (\<lambda>k. 1 / 2) rev (\<lambda>k. 0) None) = 7"
proof -
  have d: "generateMockDetections (\<lambda>k. 1 / 2) \<noteq> []"
    using length_generateMockDetections [of "\<lambda>k. 1 / 2"]
    by (auto simp: EMPTY_DETECTION_PROBABILITY_def slice0_def MOCK_TILES_def)
  have r: "generateMockRecommendations (\<lambda>k. 1 / 2) rev (\<lambda>k. 0) None \<noteq> []"
    using length_generateMockRecommendations [of "\<lambda>k. 1 / 2" rev "\<lambda>k. 0" None]
    by (auto simp: EMPTY_RECOMMENDATION_PROBABILITY_def slice0_def
        MOCK_RECOMMENDATION_TILES_def optional_id_def)
  show ?thesis
    using d r result_cardinality [of "\<lambda>k. 1 / 2" rev "\<lambda>k. 0" None]
    by (simp add: MOCK_TILES_def MOCK_RECOMMENDATION_TILES_def optional_id_def)
qed

text \<open>
  Claim C5.  Whatever the draws, the array that the detection service returns is
  ordered by confidence, and the one the recommendation service returns by
  similarity, from the highest score to the lowest (equal scores may follow each
  other).  The empty result is ordered as well.
\<close>

theorem results_sorted_descending:
  "sorted_wrt (\<lambda>a b. confidence b \<le> confidence a) (generateMockDetections rnd) \<and>
   sorted_wrt (\<lambda>a b. similarity b \<le> similarity a)
     (generateMockRecommendations rnd shuffle sim referenceTile)"
  unfolding generateMockDetections_def generateMockRecommendations_def Let_def
  by (simp add: sorted_array_sort_desc)

text \<open>
  Rounding to three decimals moves a number by at most half a thousandth, so a
  number within that distance of the interval between two multiples of a
  thousandth is rounded into the interval.
\<close>

lemma toFixed3_range:
  fixes lo hi :: int
  assumes "(of_int lo - 1 / 2) / 1000 \<le> x" and "x < (of_int hi + 1 / 2) / 1000"
    and "0 < lo"
  shows "of_int lo / 1000 \<le> toFixed3 x \<and> toFixed3 x \<le> of_int hi / 1000"
proof -
  have "(0::real) \<le> (of_int lo - 1 / 2) / 1000" using assms(3) by simp
  with assms(1) have x0: "\<not> x < 0" by linarith
  have "of_int lo \<le> x * 1000 + 1 / 2" using assms(1) by (simp add: field_simps)
  then have a: "lo \<le> \<lfloor>x * 1000 + 1 / 2\<rfloor>" by (simp add: le_floor_iff)
  have "x * 1000 + 1 / 2 < of_int (hi + 1)" using assms(2) by (simp add: field_simps)
  then have "\<lfloor>x * 1000 + 1 / 2\<rfloor> < hi + 1" by (simp only: floor_less_iff)
  then have b: "\<lfloor>x * 1000 + 1 / 2\<rfloor> \<le> hi" by simp
  from a b x0 show ?thesis
    unfolding toFixed3_def by (simp add: divide_le_cancel)
qed

lemma toFixed3_thousandths: "\<exists>n::int. toFixed3 x = of_int n / 1000"
  unfolding toFixed3_def
  by (cases "x < 0") (auto intro: exI [of _ "- \<lfloor>(- x) * 1000 + 1 / 2\<rfloor>"])

lemma powr_unit:
  fixes r :: real
  assumes "0 \<le> r" "r < 1" "0 < a"
  shows "0 \<le> r powr a" "r powr a < 1"
proof -
  show "0 \<le> r powr a" by simp
  have "r powr a < 1 powr a" using assms by (intro powr_less_mono2) auto
  then show "r powr a < 1" by simp
qed

lemma generateConfidence_range:
  assumes "0 \<le> random" and "random < 1"
  shows "generateConfidence random \<in> {0.5..0.99}"
proof -
  have "0 \<le> random powr 0.7" "random powr 0.7 < 1"
    using powr_unit [OF assms, of "0.7"] by simp_all
  then have "of_int 500 / 1000 \<le> toFixed3 (0.5 + random powr 0.7 * 0.49) \<and>
        toFixed3 (0.5 + random powr 0.7 * 0.49) \<le> of_int 990 / 1000"
    by (intro toFixed3_range) (simp_all add: field_simps)
  then show ?thesis
    unfolding generateConfidence_def Let_def by simp
qed

lemma generateSimilarity_range:
  assumes "0 \<le> random" and "random < 1"
  shows "generateSimilarity random \<in> {0.72..0.95}"
proof -
  have "0 \<le> random powr 0.6" "random powr 0.6 < 1"
    using powr_unit [OF assms, of "0.6"] by simp_all
  then have "of_int 720 / 1000 \<le> toFixed3 (0.72 + random powr 0.6 * (0.95 - 0.72)) \<and>
        toFixed3 (0.72 + random powr 0.6 * (0.95 - 0.72)) \<le> of_int 950 / 1000"
    by (intro toFixed3_range) (simp_all add: field_simps)
  then show ?thesis
    unfolding generateSimilarity_def Let_def by simp
qed

text \<open>
  The same bounds hold when the number that is rounded is off by less than half a
  thousandth, as it may be in floating point arithmetic.
\<close>

lemma confidence_tolerates_error:
  assumes "0 \<le> random" and "random < 1" and "\<bar>e\<bar> < 1 / 2000"
  shows "toFixed3 (0.5 + random powr 0.7 * 0.49 + e) \<in> {0.5..0.99}"
proof -
  define p where "p = random powr 0.7"
  have p: "0 \<le> p" "p < 1"
    unfolding p_def using powr_unit [OF assms(1,2), of "0.7"] by simp_all
  have e: "- (1 / 2000) < e" "e < 1 / 2000"
    using assms(3) by (simp_all add: abs_less_iff)
  have lo: "(of_int 500 - 1 / 2) / 1000 \<le> 0.5 + p * 0.49 + e"
    using p e by simp
  have hi: "0.5 + p * 0.49 + e < (of_int 990 + 1 / 2) / 1000"
    using p e by simp
  have "of_int 500 / 1000 \<le> toFixed3 (0.5 + p * 0.49 + e) \<and>
        toFixed3 (0.5 + p * 0.49 + e) \<le> of_int 990 / 1000"
    using lo hi by (rule toFixed3_range) simp
  then show ?thesis unfolding p_def by simp
qed

lemma similarity_tolerates_error:
  assumes "0 \<le> random" and "random < 1" and "\<bar>e\<bar> < 1 / 2000"
  shows "toFixed3 (0.72 + random powr 0.6 * (0.95 - 0.72) + e) \<in> {0.72..0.95}"
proof -
  define p where "p = random powr 0.6"
  have p: "0 \<le> p" "p < 1"
    unfolding p_def using powr_unit [OF assms(1,2), of "0.6"] by simp_all
  have e: "- (1 / 2000) < e" "e < 1 / 2000"
    using assms(3) by (simp_all add: abs_less_iff)
  have lo: "(of_int 720 - 1 / 2) / 1000 \<le> 0.72 + p * (0.95 - 0.72) + e"
    using p e by simp
  have hi: "0.72 + p * (0.95 - 0.72) + e < (of_int 950 + 1 / 2) / 1000"
    using p e by simp
  have "of_int 720 / 1000 \<le> toFixed3 (0.72 + p * (0.95 - 0.72) + e) \<and>
        toFixed3 (0.72 + p * (0.95 - 0.72) + e) \<le> of_int 950 / 1000"
    using lo hi by (rule toFixed3_range) simp
  then show ?thesis unfolding p_def by simp
qed

text \<open>The scores in the results of the two services are such scores.\<close>

lemma detection_confidences_in_range:
  assumes "\<forall>k. 0 \<le> rnd k \<and> rnd k < 1"
    and "d \<in> set (generateMockDetections rnd)"
  shows "confidence d \<in> {0.5..0.99}"
proof -
  from assms(2) obtain k where "confidence d = generateConfidence (rnd k)"
    unfolding generateMockDetections_def Let_def
    by (auto simp: set_array_sort split: if_splits)
  with generateConfidence_range [of "rnd k"] assms(1) show ?thesis by simp
qed

lemma recommendation_similarities_in_range:
  assumes "\<forall>k. 0 \<le> sim k \<and> sim k < 1"
    and "r \<in> set (generateMockRecommendations rnd shuffle sim referenceTile)"
  shows "similarity r \<in> {0.72..0.95}"
proof -
  from assms(2) obtain k where "similarity r = generateSimilarity (sim k)"
    unfolding generateMockRecommendations_def Let_def
    by (auto simp: set_array_sort split: if_splits)
  with generateSimilarity_range [of "sim k"] assms(1) show ?thesis by simp
qed

text \<open>
  No recommendation carries the identifier of the reference tile, when shuffling
  brings in no new tile.
\<close>

lemma recommendations_exclude_reference:
  assumes "\<forall>xs. set (shuffle xs) \<subseteq> set xs"
    and "r \<in> set (generateMockRecommendations rnd shuffle sim referenceTile)"
  shows "Some (rec_id r) \<noteq> optional_id referenceTile"
proof -
  let ?avail = "filter (\<lambda>tile. Some (tile_id tile) \<noteq> optional_id referenceTile)
                  MOCK_RECOMMENDATION_TILES"
  from assms(2) have "r \<in> set (map (\<lambda>(index, tile).
                     \<lparr>rec_id = tile_id tile, rec_image = tile_image tile,
                      similarity = generateSimilarity (sim index)\<rparr>)
                  (enumerate 0 (slice0 (shuffle ?avail) (\<lfloor>rnd 1 * 4\<rfloor> + 5))))"
    unfolding generateMockRecommendations_def Let_def
    by (simp add: set_array_sort del: set_map split: if_splits)
  from in_map_enumerate [OF this] obtain tile
    where "tile \<in> set (slice0 (shuffle ?avail) (\<lfloor>rnd 1 * 4\<rfloor> + 5))"
    and "rec_id r = tile_id tile"
    by auto
  moreover have "set (slice0 (shuffle ?avail) (\<lfloor>rnd 1 * 4\<rfloor> + 5)) \<subseteq> set ?avail"
    using set_slice0 assms(1) by (metis subset_trans)
  ultimately show ?thesis by auto
qed

text \<open>
  Claim C6.  For every draw in \<open>[0, 1)\<close> the confidence that \<^verbatim>\<open>generateConfidence\<close>
  returns lies in \<open>[0.5, 0.99]\<close> and the similarity that \<^verbatim>\<open>generateSimilarity\<close>
  returns lies in \<open>[0.72, 0.95]\<close>, and both are multiples of one thousandth.
  Numbers are reals here; by \<open>confidence_tolerates_error\<close> and
  \<open>similarity_tolerates_error\<close> the bounds also hold when the rounded number is
  off by less than 0.0005.
\<close>

theorem scores_in_range:
  assumes "0 \<le> random" and "random < 1"
  shows "generateConfidence random \<in> {0.5..0.99} \<and>
         generateSimilarity random \<in> {0.72..0.95} \<and>
         (\<exists>n::int. generateConfidence random = of_int n / 1000) \<and>
         (\<exists>n::int. generateSimilarity random = of_int n / 1000)"
proof -
  have "\<exists>n::int. generateConfidence random = of_int n / 1000"
    and "\<exists>n::int. generateSimilarity random = of_int n / 1000"
    unfolding generateConfidence_def generateSimilarity_def Let_def
    by (rule toFixed3_thousandths)+
  with generateConfidence_range [OF assms] generateSimilarity_range [OF assms]
  show ?thesis by blast
qed

text \<open>The draw 0 gives the lowest scores, 0.5 and 0.72; the draw one half is in range.\<close>

theorem scores_in_range_witness:
  "(0::real) \<le> 0 \<and> (0::real) < 1 \<and> (0::real) \<le> 1 / 2 \<and> (1::real) / 2 < 1 \<and>
   generateConfidence 0 = 0.5 \<and> generateSimilarity 0 = 0.72 \<and>
   generateConfidence (1 / 2) \<in> {0.5..0.99} \<and> generateSimilarity (1 / 2) \<in> {0.72..0.95}"
  using scores_in_range [of 0] scores_in_range [of "1 / 2"]
  by (simp add: generateConfidence_def generateSimilarity_def toFixed3_def)

subsection \<open>The recommendation call\<close>

text \<open>
  The call is rejected exactly for an absent tile, a tile without an identifier and
  a tile whose identifier is the number zero; every other call resolves.
\<close>

lemma recommend_rejects_iff:
  "(\<exists>e. getTileRecommendations rnd shuffle sim referenceTile = Inl e) =
     (referenceTile = None \<or> optional_id referenceTile = None \<or>
      optional_id referenceTile = Some 0)"
  by (auto simp: getTileRecommendations_def falsy_id_def split: option.splits)

lemma recommend_resolves_nonzero_id:
  "det_id tile = Some n \<Longrightarrow> n \<noteq> 0 \<Longrightarrow>
   getTileRecommendations rnd shuffle sim (Some tile) =
     Inr (generateMockRecommendations rnd shuffle sim (Some tile))"
  by (simp add: getTileRecommendations_def falsy_id_def optional_id_def)

lemma recommend_empty_is_success:
  "det_id tile = Some n \<Longrightarrow> n \<noteq> 0 \<Longrightarrow> rnd 0 < 0.1 \<Longrightarrow>
   getTileRecommendations rnd shuffle sim (Some tile) = Inr []"
  by (simp add: getTileRecommendations_def falsy_id_def optional_id_def
      generateMockRecommendations_def EMPTY_RECOMMENDATION_PROBABILITY_def)

text \<open>
  Claim C7 says that the call is rejected exactly when the reference tile is absent
  or has no identifier.  A tile that carries the identifier 0 has one, and the call
  is rejected all the same, whatever the draws.
\<close>

theorem recommend_rejects_identifier_zero:
  "getTileRecommendations rnd shuffle sim
     (Some \<lparr>det_id = Some 0, det_image = ''/mock/tile1.svg'', confidence = 0.9\<rparr>)
   = Inl ''Invalid reference tile provided''"
  by (simp add: getTileRecommendations_def falsy_id_def optional_id_def)

subsection \<open>Validation\<close>

text \<open>
  Claim C4.  \<^verbatim>\<open>validateFile\<close> accepts (returns no message) exactly when a file is
  present, its type is one of the three allowed strings (PNG, and JPEG under two
  spellings) and its size is at most 10 MiB; otherwise it returns a message, which
  is not empty.  \<^verbatim>\<open>handleFile\<close> hands an accepted file on as it is and hands on
  nothing for a rejected one.
\<close>

theorem validate_accepts_exactly:
  "(validateFile selected = None) =
     (\<exists>f. selected = Some f \<and>
          file_type f \<in> {''image/png'', ''image/jpeg'', ''image/jpg''} \<and>
          file_size f \<le> 10 * 1024 * 1024) \<and>
   (validateFile selected = None \<or>
      (\<exists>reason. reason \<noteq> [] \<and> validateFile selected = Some reason)) \<and>
   handleFile selected =
     (if validateFile selected = None
      then \<lparr>uploader_error = None, onImageSelect_arg = Some selected\<rparr>
      else \<lparr>uploader_error = validateFile selected, onImageSelect_arg = None\<rparr>)"
proof (cases selected)
  case None
  then show ?thesis
    by (simp add: validateFile_def handleFile_def truthy_message_def)
next
  case (Some f)
  then show ?thesis
    by (auto simp: validateFile_def handleFile_def truthy_message_def
        ALLOWED_TYPES_def MAX_FILE_SIZE_def)
qed

lemma validate_examples:
  "validateFile (Some photo) = None"
  "validateFile (Some (photo\<lparr>file_size := 15 * 1024 * 1024\<rparr>)) =
     Some ''File too large. Maximum size is 10MB.''"
  "validateFile (Some (photo\<lparr>file_type := ''image/gif''\<rparr>)) =
     Some ''Invalid file type. Please upload PNG, JPG, or JPEG images only.''"
  "validateFile None = Some ''No file selected''"
  by (simp_all add: validateFile_def photo_def ALLOWED_TYPES_def MAX_FILE_SIZE_def)

subsection \<open>The example runs, state by state\<close>

lemma uploaded_world:
  "handleImageUpload photo initial_world =
     \<lparr>app = \<lparr>currentPage = Upload, uploadedImage = Some photo, imagePreview = Some 0,
             detectionResults = None, selectedTileForRecommendation = None\<rparr>,
      uploadPage = initial_upload_page, recommendationPage = initial_recommendation_page,
      objectURLs = [0], nextURL = 1, detectCalls = [], recommendCalls = []\<rparr>"
  by (simp add: handleImageUpload_def createObjectURL_def initial_world_def initial_app_def)

lemma detecting_world:
  "handleDetect (handleImageUpload photo initial_world) =
     \<lparr>app = \<lparr>currentPage = Upload, uploadedImage = Some photo, imagePreview = Some 0,
             detectionResults = None, selectedTileForRecommendation = None\<rparr>,
      uploadPage = \<lparr>isProcessing = True, upload_error = None, showCamera = False\<rparr>,
      recommendationPage = initial_recommendation_page,
      objectURLs = [0], nextURL = 1, detectCalls = [photo], recommendCalls = []\<rparr>"
  by (simp add: uploaded_world handleDetect_def initial_upload_page_def)

lemma detected_world_eq:
  "detected_world =
     \<lparr>app = \<lparr>currentPage = Result, uploadedImage = Some photo, imagePreview = Some 0,
             detectionResults = Some sample_detections,
             selectedTileForRecommendation = None\<rparr>,
      uploadPage = \<lparr>isProcessing = False, upload_error = None, showCamera = False\<rparr>,
      recommendationPage = initial_recommendation_page,
      objectURLs = [0], nextURL = 1, detectCalls = [photo], recommendCalls = []\<rparr>"
  by (simp add: detected_world_def detecting_world detect_resolved_def
      handleDetectionComplete_def)

lemma sorted_sample:
  "array_sort (\<lambda>a b. confidence b - confidence a) sample_detections =
     [\<lparr>det_id = Some 2, det_image = ''/mock/tile2.svg'', confidence = 0.91\<rparr>,
      \<lparr>det_id = Some 4, det_image = ''/mock/tile1.svg'', confidence = 0.91\<rparr>,
      \<lparr>det_id = Some 1, det_image = ''/mock/tile1.svg'', confidence = 0.77\<rparr>,
      \<lparr>det_id = Some 3, det_image = ''/mock/tile3.svg'', confidence = 0.63\<rparr>,
      \<lparr>det_id = Some 5, det_image = ''/mock/tile2.svg'', confidence = 0.55\<rparr>]"
  by (simp add: sample_detections_def array_sort_def)

lemma topDetections_sample:
  "topDetections (Some sample_detections) =
     [\<lparr>det_id = Some 2, det_image = ''/mock/tile2.svg'', confidence = 0.91\<rparr>,
      \<lparr>det_id = Some 4, det_image = ''/mock/tile1.svg'', confidence = 0.91\<rparr>,
      \<lparr>det_id = Some 1, det_image = ''/mock/tile1.svg'', confidence = 0.77\<rparr>]"
proof -
  have "sample_detections \<noteq> []" by (simp add: sample_detections_def)
  then show ?thesis
    by (simp add: topDetections_def hasDetections_def sorted_sample slice0_3)
qed

lemma recommending_world:
  "ResultPage_handleFindSimilar detected_world =
     \<lparr>app = \<lparr>currentPage = Recommendation, uploadedImage = Some photo,
             imagePreview = Some 0, detectionResults = Some sample_detections,
             selectedTileForRecommendation = Some top_sample\<rparr>,
      uploadPage = \<lparr>isProcessing = False, upload_error = None, showCamera = False\<rparr>,
      recommendationPage =
        \<lparr>isLoading = True, recommendations = None, recommendation_error = None,
         hasFetchedRef = True\<rparr>,
      objectURLs = [0], nextURL = 1, detectCalls = [photo],
      recommendCalls = [top_sample]\<rparr>"
  by (simp add: ResultPage_handleFindSimilar_def detected_world_eq topDetections_sample
      handleFindSimilar_def fetch_effect_def initial_recommendation_page_def top_sample_def)

lemma failed_recommendation_world_eq:
  "failed_recommendation_world =
     \<lparr>app = \<lparr>currentPage = Recommendation, uploadedImage = Some photo,
             imagePreview = Some 0, detectionResults = Some sample_detections,
             selectedTileForRecommendation = Some top_sample\<rparr>,
      uploadPage = \<lparr>isProcessing = False, upload_error = None, showCamera = False\<rparr>,
      recommendationPage =
        \<lparr>isLoading = False, recommendations = None,
         recommendation_error = Some ''Unable to find similar tiles. Please try again.'',
         hasFetchedRef = True\<rparr>,
      objectURLs = [0], nextURL = 1, detectCalls = [photo],
      recommendCalls = [top_sample]\<rparr>"
  by (simp add: failed_recommendation_world_def recommending_world recommend_rejected_def)

lemma replaced_photo_world:
  "handleImageUpload other_photo (handleImageUpload photo initial_world) =
     \<lparr>app = \<lparr>currentPage = Upload, uploadedImage = Some other_photo,
             imagePreview = Some 1, detectionResults = None,
             selectedTileForRecommendation = None\<rparr>,
      uploadPage = initial_upload_page, recommendationPage = initial_recommendation_page,
      objectURLs = [0, 1], nextURL = 2, detectCalls = [], recommendCalls = []\<rparr>"
  unfolding uploaded_world by (simp add: handleImageUpload_def createObjectURL_def)

subsection \<open>The result page\<close>

lemma topDetections_Some:
  "ds \<noteq> [] \<Longrightarrow>
   topDetections (Some ds) = take 3 (array_sort (\<lambda>a b. confidence b - confidence a) ds)"
  by (simp add: topDetections_def hasDetections_def slice0_3)

lemma hd_topDetections:
  assumes "ds \<noteq> []"
  shows "topDetections (Some ds) \<noteq> []"
    and "hd (topDetections (Some ds)) = hd (array_sort (\<lambda>a b. confidence b - confidence a) ds)"
proof -
  have "array_sort (\<lambda>a b. confidence b - confidence a) ds \<noteq> []"
    using assms by (simp add: array_sort_Nil_iff)
  then show "topDetections (Some ds) \<noteq> []"
    and "hd (topDetections (Some ds)) = hd (array_sort (\<lambda>a b. confidence b - confidence a) ds)"
    using assms by (simp_all add: topDetections_Some)
qed

lemma ResultPage_handleFindSimilar_app:
  assumes "detectionResults (app w) = Some ds" "ds \<noteq> []"
  shows "app (ResultPage_handleFindSimilar w) =
     (app w)\<lparr>selectedTileForRecommendation := Some (hd (topDetections (Some ds))),
             currentPage := Recommendation\<rparr>"
proof -
  obtain d rest where "topDetections (Some ds) = d # rest"
    using hd_topDetections(1) [OF assms(2)] by (cases "topDetections (Some ds)") auto
  then show ?thesis
    using assms(1)
    by (simp add: ResultPage_handleFindSimilar_def handleFindSimilar_def fetch_effect_def)
qed

lemma ResultPage_handleFindSimilar_no_detections:
  "detectionResults (app w) = None \<or> detectionResults (app w) = Some [] \<Longrightarrow>
   ResultPage_handleFindSimilar w = w \<and> FindSimilarButton \<notin> set (enabled_controls w)"
  by (auto simp: ResultPage_handleFindSimilar_def topDetections_def hasDetections_def
      enabled_controls_def split: page.splits option.splits)

lemma tileCards_shown:
  "map (\<lambda>(image, c, rank). (image, c)) (tileCards results) =
     map (\<lambda>d. (det_image d, confidence d)) (topDetections results)"
  unfolding tileCards_def
  by (simp add: comp_def case_prod_beta
      map_snd_enumerate_comp [where g = "\<lambda>d. (det_image d, confidence d)"])

lemma tileCards_ranks:
  "map (\<lambda>(image, c, rank). rank) (tileCards results) =
     [1..<Suc (length (topDetections results))]"
  unfolding tileCards_def
  by (simp add: comp_def case_prod_beta map_Suc_fst_enumerate)

text \<open>
  Claim C8.  The result page offers no choice of tile: with a non-empty set of
  detections, \<^verbatim>\<open>Find Similar Tiles\<close> takes as reference tile the first detection,
  in the order in which the set was received, among those with the highest
  confidence, and shows the recommendation page.
\<close>

theorem default_reference_is_first_highest:
  assumes "detectionResults (app w) = Some ds" and "ds \<noteq> []"
  shows "selectedTileForRecommendation (app (ResultPage_handleFindSimilar w)) =
           find (\<lambda>d. confidence d = Max (confidence ` set ds)) ds \<and>
         currentPage (app (ResultPage_handleFindSimilar w)) = Recommendation"
  using ResultPage_handleFindSimilar_app [OF assms] hd_topDetections(2) [OF assms(2)]
    find_max_hd_sort [OF assms(2), of confidence]
  by simp

text \<open>
  In the sample the confidence 0.91 occurs twice, at the second and the fourth
  place; the second detection becomes the reference tile.
\<close>

theorem default_reference_is_first_highest_witness:
  "detectionResults (app detected_world) = Some sample_detections \<and>
   sample_detections \<noteq> [] \<and>
   find (\<lambda>d. confidence d = Max (confidence ` set sample_detections)) sample_detections =
     Some top_sample \<and>
   selectedTileForRecommendation (app (ResultPage_handleFindSimilar detected_world)) =
     Some top_sample \<and>
   currentPage (app (ResultPage_handleFindSimilar detected_world)) = Recommendation"
proof -
  have held: "detectionResults (app detected_world) = Some sample_detections"
    by (simp add: detected_world_eq)
  have ne: "sample_detections \<noteq> []"
    by (simp add: sample_detections_def)
  have "selectedTileForRecommendation (app (ResultPage_handleFindSimilar detected_world)) =
     Some top_sample"
    by (simp add: recommending_world)
  with default_reference_is_first_highest [OF held ne] held ne show ?thesis
    by simp
qed

text \<open>
  Claim C10.  For a non-empty set of detections the result page shows the first
  three of the detections ordered by confidence from high to low: their number,
  which is the count it reports, is the smaller of 3 and the size of the set; no
  detection left out has a higher confidence than one that is shown; the cards
  carry the images and confidences of the shown detections with the ranks 1, 2, 3;
  and the reference tile that the page hands on is one of the shown detections.
\<close>

theorem result_page_shows_top_three:
  assumes "ds \<noteq> []" and "detectionResults (app w) = Some ds"
  shows "length (topDetections (Some ds)) = min 3 (length ds) \<and>
         sorted_wrt (\<lambda>a b. confidence b \<le> confidence a) (topDetections (Some ds)) \<and>
         (\<exists>rest. mset (topDetections (Some ds)) + mset rest = mset ds \<and>
                 (\<forall>a\<in>set (topDetections (Some ds)). \<forall>b\<in>set rest.
                     confidence b \<le> confidence a)) \<and>
         map (\<lambda>(image, c, rank). (image, c)) (tileCards (Some ds)) =
           map (\<lambda>d. (det_image d, confidence d)) (topDetections (Some ds)) \<and>
         map (\<lambda>(image, c, rank). rank) (tileCards (Some ds)) = [1..<Suc (min 3 (length ds))] \<and>
         (\<exists>d. selectedTileForRecommendation (app (ResultPage_handleFindSimilar w)) = Some d \<and>
              d \<in> set (topDetections (Some ds)))"
proof -
  let ?sorted = "array_sort (\<lambda>a b. confidence b - confidence a) ds"
  let ?top = "topDetections (Some ds)"
  have top: "?top = take 3 ?sorted" using assms(1) by (rule topDetections_Some)
  have len: "length ?top = min 3 (length ds)"
    by (simp add: top length_array_sort min.commute)
  have srt: "sorted_wrt (\<lambda>a b. confidence b \<le> confidence a) ?sorted"
    by (rule sorted_array_sort_desc)
  then have s1: "sorted_wrt (\<lambda>a b. confidence b \<le> confidence a) ?top"
    unfolding top by (rule sorted_wrt_take)
  have "mset ?top + mset (drop 3 ?sorted) = mset ds"
    unfolding top by (simp add: mset_array_sort flip: mset_append)
  moreover have "\<forall>a\<in>set ?top. \<forall>b\<in>set (drop 3 ?sorted). confidence b \<le> confidence a"
    unfolding top using srt by (rule top_above_rest)
  ultimately have s2: "\<exists>rest. mset ?top + mset rest = mset ds \<and>
      (\<forall>a\<in>set ?top. \<forall>b\<in>set rest. confidence b \<le> confidence a)"
    by blast
  have s3: "map (\<lambda>(image, c, rank). rank) (tileCards (Some ds)) = [1..<Suc (min 3 (length ds))]"
    by (simp only: tileCards_ranks len)
  have ne: "?top \<noteq> []" using assms(1) by (rule hd_topDetections(1))
  have "selectedTileForRecommendation (app (ResultPage_handleFindSimilar w)) = Some (hd ?top)"
    by (simp add: ResultPage_handleFindSimilar_app [OF assms(2,1)])
  with ne have s4: "\<exists>d. selectedTileForRecommendation (app (ResultPage_handleFindSimilar w)) = Some d \<and>
              d \<in> set ?top"
    by simp
  from len s1 s2 tileCards_shown [of "Some ds"] s3 s4 show ?thesis by blast
qed

text \<open>Of the five sample detections the three with 0.91, 0.91 and 0.77 are shown.\<close>

theorem result_page_shows_top_three_witness:
  "sample_detections \<noteq> [] \<and>
   detectionResults (app detected_world) = Some sample_detections \<and>
   length sample_detections = 5 \<and>
   length (topDetections (Some sample_detections)) = 3 \<and>
   map (\<lambda>(image, c, rank). (image, c)) (tileCards (Some sample_detections)) =
     [(''/mock/tile2.svg'', 0.91), (''/mock/tile1.svg'', 0.91), (''/mock/tile1.svg'', 0.77)] \<and>
   map (\<lambda>(image, c, rank). rank) (tileCards (Some sample_detections)) = [1, 2, 3] \<and>
   selectedTileForRecommendation (app (ResultPage_handleFindSimilar detected_world)) =
     Some top_sample"
proof -
  have held: "detectionResults (app detected_world) = Some sample_detections"
    by (simp add: detected_world_eq)
  have ne: "sample_detections \<noteq> []" and five: "length sample_detections = 5"
    by (simp_all add: sample_detections_def)
  have sel: "selectedTileForRecommendation (app (ResultPage_handleFindSimilar detected_world)) =
     Some top_sample"
    by (simp add: recommending_world)
  have upt: "[Suc 0..<4] = [Suc 0, 2, 3]" by (simp add: upt_rec)
  from result_page_shows_top_three [OF ne held] held ne five sel show ?thesis
    by (simp add: topDetections_sample upt)
qed

subsection \<open>Reset\<close>

text \<open>
  \<^verbatim>\<open>handleReset\<close> empties the five cells of \<^verbatim>\<open>App\<close> and revokes the object URL that
  \<^verbatim>\<open>imagePreview\<close> holds at that moment.
\<close>

lemma handleReset_app: "app (handleReset w) = initial_app"
  by (simp add: handleReset_def initial_app_def revokeObjectURL_def split: option.splits)

lemma handleReset_revokes_current:
  "imagePreview (app w) = Some previewUrl \<Longrightarrow> previewUrl \<notin> set (objectURLs (handleReset w))"
  by (simp add: handleReset_def revokeObjectURL_def)

lemma handleImageUpload_keeps_urls:
  "set (objectURLs w) \<subseteq> set (objectURLs (handleImageUpload f w))"
  by (auto simp: handleImageUpload_def createObjectURL_def)

text \<open>
  Claim C9 says that after a reset the state of the workflow is the initial one and
  no object URL made since the last reset is left.  \<^verbatim>\<open>handleImageUpload\<close> makes a new
  URL for each chosen image and never revokes the one it replaces, so when a photo
  is replaced before the reset, the URL of the first photo (handle 0) is still
  there after it, although the state of the workflow is the initial one.
\<close>

theorem reset_leaves_replaced_preview:
  "objectURLs replaced_photo_reset_world = [0] \<and>
   app replaced_photo_reset_world = initial_app"
  by (simp add: replaced_photo_reset_world_def replaced_photo_world handleDetect_def
      detect_resolved_def handleDetectionComplete_def handleReset_def revokeObjectURL_def
      initial_app_def)

subsection \<open>A failed recommendation call\<close>

text \<open>
  Claim C2, as stated, asks that the retry action issues one new call to the
  recommendation service for the same reference tile.  In the run in which the call
  fails, the reference tile is still held and \<^verbatim>\<open>Try Again\<close> is offered, but the
  action reloads the page: the log of calls still has the one entry, and the
  workflow is back at the upload page without a reference tile.
\<close>

theorem retry_reloads_instead:
  "selectedTileForRecommendation (app failed_recommendation_world) = Some top_sample \<and>
   enabled_controls failed_recommendation_world = [RetryButton, BackButton, ResetButton] \<and>
   recommendCalls failed_recommendation_world = [top_sample] \<and>
   recommendCalls (reload failed_recommendation_world) = [top_sample] \<and>
   recommendCalls (reload failed_recommendation_world) \<noteq>
     recommendCalls failed_recommendation_world @ [top_sample] \<and>
   selectedTileForRecommendation (app (reload failed_recommendation_world)) = None \<and>
   currentPage (app (reload failed_recommendation_world)) = Upload"
  by (simp add: failed_recommendation_world_eq enabled_controls_def truthy_message_def
      reload_def initial_world_def initial_app_def)

text \<open>
  Claim C2, amended.  When a call to the recommendation service fails on the
  recommendation page, the state of the workflow, and with it the reference tile,
  is unchanged and no call is issued; the page offers \<^verbatim>\<open>Try Again\<close>, \<^verbatim>\<open>Back\<close> and
  \<^verbatim>\<open>Upload New Image\<close>.  \<^verbatim>\<open>Try Again\<close> reloads the page: the workflow starts again
  from its initial state and no call to the recommendation service is issued.
\<close>

theorem failed_recommendation_keeps_reference:
  assumes "currentPage (app w) = Recommendation"
    and "selectedTileForRecommendation (app w) = Some tile"
  shows "app (recommend_rejected w) = app w \<and>
         recommendCalls (recommend_rejected w) = recommendCalls w \<and>
         enabled_controls (recommend_rejected w) = [RetryButton, BackButton, ResetButton] \<and>
         app (reload (recommend_rejected w)) = initial_app \<and>
         recommendCalls (reload (recommend_rejected w)) = recommendCalls w"
  using assms
  by (simp add: recommend_rejected_def enabled_controls_def truthy_message_def reload_def
      initial_world_def)

theorem failed_recommendation_keeps_reference_witness:
  "currentPage (app (ResultPage_handleFindSimilar detected_world)) = Recommendation \<and>
   selectedTileForRecommendation (app (ResultPage_handleFindSimilar detected_world)) =
     Some top_sample \<and>
   selectedTileForRecommendation (app failed_recommendation_world) = Some top_sample \<and>
   enabled_controls failed_recommendation_world = [RetryButton, BackButton, ResetButton] \<and>
   app (reload failed_recommendation_world) = initial_app \<and>
   recommendCalls (reload failed_recommendation_world) = [top_sample]"
proof -
  have p: "currentPage (app (ResultPage_handleFindSimilar detected_world)) = Recommendation"
    and t: "selectedTileForRecommendation (app (ResultPage_handleFindSimilar detected_world)) =
     Some top_sample"
    and c: "recommendCalls (ResultPage_handleFindSimilar detected_world) = [top_sample]"
    by (simp_all add: recommending_world)
  from failed_recommendation_keeps_reference [OF p t] p t c show ?thesis
    by (simp add: failed_recommendation_world_def)
qed

subsection \<open>Calls that are pending\<close>

text \<open>
  On claim C3.  The code marks no request and tests no answer: the continuation of
  \<^verbatim>\<open>handleDetect\<close> stores the detections and shows the result page whenever it
  runs, and the continuations of \<^verbatim>\<open>fetchRecommendations\<close> set state of their page
  only.  What the code does have is this: from the moment a detect call (on the
  upload page, with an image chosen) or a recommend call (on entering the
  recommendation page from the result page) is issued, the page shows the loader
  and no control, and \<^verbatim>\<open>handleReset\<close> is not handed to the upload page at all.  So
  no run of the client resets or leaves the page while a call is pending, and the
  case the claim speaks of does not arise.
\<close>

lemma pending_call_shows_loader_only:
  assumes "currentPage (app w) = Upload" and "uploadedImage (app w) = Some f"
  shows "enabled_controls (handleDetect w) = [] \<and>
         detectCalls (handleDetect w) = detectCalls w @ [f] \<and>
         enabled_controls (handleFindSimilar tile v) = [] \<and>
         recommendCalls (handleFindSimilar tile v) = recommendCalls v @ [tile] \<and>
         app (detect_resolved results v) =
           (app v)\<lparr>detectionResults := Some results, currentPage := Result\<rparr> \<and>
         app (detect_rejected v) = app v \<and>
         app (recommend_resolved recs v) = app v \<and>
         app (recommend_rejected v) = app v"
  using assms
  by (simp add: handleDetect_def enabled_controls_def handleFindSimilar_def fetch_effect_def
      initial_recommendation_page_def detect_resolved_def handleDetectionComplete_def
      detect_rejected_def recommend_resolved_def recommend_rejected_def)

lemma loader_hides_controls:
  "currentPage (app w) = Upload \<Longrightarrow> isProcessing (uploadPage w) \<Longrightarrow>
   enabled_controls w = []"
  "currentPage (app w) = Recommendation \<Longrightarrow>
   selectedTileForRecommendation (app w) = Some tile \<Longrightarrow>
   isLoading (recommendationPage w) \<Longrightarrow> enabled_controls w = []"
  "currentPage (app w) = Upload \<Longrightarrow>
   ResetButton \<notin> set (enabled_controls w) \<and> BackButton \<notin> set (enabled_controls w)"
  by (simp_all add: enabled_controls_def)

lemma detecting_shows_loader_only:
  "enabled_controls (handleDetect (handleImageUpload photo initial_world)) = []"
  unfolding detecting_world by (simp add: enabled_controls_def)

lemma recommending_shows_loader_only:
  "enabled_controls (ResultPage_handleFindSimilar detected_world) = []"
  unfolding recommending_world by (simp add: enabled_controls_def)

lemma upload_page_has_no_reset:
  "enabled_controls (handleImageUpload photo initial_world) =
     [ImageUploaderZone, CameraButton, DetectButton]"
  unfolding uploaded_world by (simp add: enabled_controls_def initial_upload_page_def)

end
